theory Spec2Isabelle
  imports Main "HOL-Library.Word"
begin

section \<open>Hex strings and the JavaScript string primitives used by the signer\<close>

type_synonym byte = "8 word"

text \<open>
  A \<open>Hex\<close> value is a JavaScript string \<open>0x...\<close>. viem's \<open>toHex\<close> on a
  \<open>Uint8Array\<close> writes the prefix \<open>0x\<close> and then every byte as two lower-case
  hexadecimal digits.
\<close>

definition hexDigit :: "nat \<Rightarrow> char" where
  "hexDigit n = ''0123456789abcdef'' ! (n mod 16)"

definition byteToHex :: "byte \<Rightarrow> string" where
  "byteToHex b = [hexDigit (unat b div 16), hexDigit (unat b mod 16)]"

definition toHex :: "byte list \<Rightarrow> string" where
  "toHex bs = ''0x'' @ concat (map byteToHex bs)"

text \<open>
  \<open>String.prototype.slice(start, end)\<close> for the non-negative constant indices the
  source uses: the characters from \<open>start\<close> up to, not including, \<open>end\<close>; shorter
  (or empty) when the string ends earlier.
\<close>

definition slice :: "string \<Rightarrow> nat \<Rightarrow> nat \<Rightarrow> string" where
  "slice str start end = take (end - start) (drop start str)"

text \<open>
  \<open>parseInt(str, 16)\<close>: leading white space is skipped, then an optional sign, then an
  optional \<open>0x\<close>/\<open>0X\<close>, then the longest run of hexadecimal digits. With no digit
  the result is \<open>NaN\<close>, which is \<open>None\<close> here.
\<close>

definition isStrWhiteSpaceChar :: "char \<Rightarrow> bool" where
  "isStrWhiteSpaceChar c = ((of_char c :: nat) \<in> {9, 10, 11, 12, 13, 32, 160})"

definition hexDigitValue :: "char \<Rightarrow> nat option" where
  "hexDigitValue c =
     (let n = (of_char c :: nat) in
      if 48 \<le> n \<and> n \<le> 57 then Some (n - 48)
      else if 97 \<le> n \<and> n \<le> 102 then Some (n - 87)
      else if 65 \<le> n \<and> n \<le> 70 then Some (n - 55)
      else None)"

fun parseHexDigits :: "nat \<Rightarrow> string \<Rightarrow> nat" where
  "parseHexDigits acc [] = acc"
| "parseHexDigits acc (c # cs) =
     (case hexDigitValue c of
        None \<Rightarrow> acc
      | Some d \<Rightarrow> parseHexDigits (16 * acc + d) cs)"

fun stripSign :: "string \<Rightarrow> bool \<times> string" where
  "stripSign [] = (False, [])"
| "stripSign (c # cs) =
     (if c = CHR ''-'' then (True, cs)
      else if c = CHR ''+'' then (False, cs)
      else (False, c # cs))"

fun stripHexPrefix :: "string \<Rightarrow> string" where
  "stripHexPrefix (a # b # cs) =
     (if a = CHR ''0'' \<and> (b = CHR ''x'' \<or> b = CHR ''X'') then cs else a # b # cs)"
| "stripHexPrefix cs = cs"

definition parseInt16 :: "string \<Rightarrow> int option" where
  "parseInt16 str =
     (let (neg, rest) = stripSign (dropWhile isStrWhiteSpaceChar str);
          digits = stripHexPrefix rest
      in case digits of
           [] \<Rightarrow> None
         | c # _ \<Rightarrow>
             (case hexDigitValue c of
                None \<Rightarrow> None
              | Some _ \<Rightarrow>
                  Some ((if neg then - 1 else 1) * int (parseHexDigits 0 digits))))"


section \<open>Data model of the exact EVM scheme\<close>

text \<open>
  \<open>PaymentRequirements\<close> and \<open>ExactEvmPayloadAuthorization\<close> of
  \<open>types/verify\<close>. The fields \<open>from\<close>, \<open>to\<close> and \<open>value\<close> of the
  authorization carry the prefix \<open>auth_\<close>; amounts and timestamps are decimal
  strings, as on the wire. \<open>extra\<close> is an optional JSON object, kept as an
  association list.
\<close>

record PaymentRequirements =
  scheme :: string
  network :: string
  maxAmountRequired :: string
  resource :: string
  description :: string
  mimeType :: string
  payTo :: string
  maxTimeoutSeconds :: nat
  asset :: string
  extra :: "(string \<times> string) list option"

record ExactEvmPayloadAuthorization =
  auth_from :: string
  auth_to :: string
  auth_value :: string
  validAfter :: string
  validBefore :: string
  nonce :: string

record TypedDataDomain =
  domain_name :: string
  domain_version :: string
  chainId :: nat
  verifyingContract :: string

record TypedDataMessage =
  msg_from :: string
  msg_to :: string
  msg_value :: string
  msg_validAfter :: string
  msg_validBefore :: string
  msg_nonce :: string

record TypedData =
  types :: "(string \<times> string) list"
  domain :: TypedDataDomain
  primaryType :: string
  message :: TypedDataMessage

text \<open>
  What \<open>sign.ts\<close> imports: \<open>getNetworkId\<close> (throws on a network it does not
  know), viem's \<open>getAddress\<close> (throws on a string that is not an address) and the
  constant \<open>authorizationTypes\<close>. They are parameters of the model; \<open>None\<close> is
  the throw.
\<close>

record sign_deps =
  getNetworkId :: "string \<Rightarrow> nat option"
  getAddress :: "string \<Rightarrow> string option"
  authorizationTypes :: "(string \<times> string) list"

text \<open>
  The errors \<open>signAuthorization\<close> can end with, by the place that raises them.
  \<open>InvalidWalletClient\<close> is the \<open>throw new Error(...)\<close> of the last branch and
  carries its message.
\<close>

datatype sign_error =
    GetNetworkIdError string
  | GetAddressError string
  | SignTypedDataError string
  | InvalidWalletClient string

text \<open>
  The signing identity. A viem wallet client (\<open>isSignerWallet\<close>) always has
  \<open>signTypedData\<close>; a local account (\<open>isAccount\<close>) may or may not; anything else
  is \<open>OtherClient\<close>. A \<open>signTypedData\<close> returns the signature as a hex string, or
  rejects (\<open>Inl\<close>, with the reason).
\<close>

type_synonym signTypedData_fn = "TypedData \<Rightarrow> string + string"

datatype walletClient =
    SignerWallet signTypedData_fn
  | LocalAccount "signTypedData_fn option"
  | OtherClient

fun isSignerWallet :: "walletClient \<Rightarrow> bool" where
  "isSignerWallet (SignerWallet _) = True"
| "isSignerWallet _ = False"

fun isAccount :: "walletClient \<Rightarrow> bool" where
  "isAccount (LocalAccount _) = True"
| "isAccount _ = False"

fun signTypedData :: "walletClient \<Rightarrow> signTypedData_fn option" where
  "signTypedData (SignerWallet f) = Some f"
| "signTypedData (LocalAccount f) = f"
| "signTypedData OtherClient = None"

record SignAuthorizationResult =
  sig_signature :: string
  sig_v :: "int option"
  sig_r :: string
  sig_s :: string


section \<open>signAuthorization\<close>

text \<open>Lines 36 to 57: the typed-data object handed to the signing identity.\<close>

definition typedData ::
  "sign_deps \<Rightarrow> ExactEvmPayloadAuthorization \<Rightarrow> PaymentRequirements \<Rightarrow> sign_error + TypedData"
where
  "typedData deps auth reqs =
     (case getNetworkId deps (network reqs) of
        None \<Rightarrow> Inl (GetNetworkIdError (network reqs))
      | Some cid \<Rightarrow>
     (case getAddress deps (asset reqs) of
        None \<Rightarrow> Inl (GetAddressError (asset reqs))
      | Some contract \<Rightarrow>
     (case getAddress deps (auth_from auth) of
        None \<Rightarrow> Inl (GetAddressError (auth_from auth))
      | Some f \<Rightarrow>
     (case getAddress deps (auth_to auth) of
        None \<Rightarrow> Inl (GetAddressError (auth_to auth))
      | Some t \<Rightarrow>
          Inr \<lparr> types = authorizationTypes deps,
                domain = \<lparr> domain_name = ''META Forwarder'',
                           domain_version = ''1'',
                           chainId = cid,
                           verifyingContract = contract \<rparr>,
                primaryType = ''TransferWithAuthorization'',
                message = \<lparr> msg_from = f,
                            msg_to = t,
                            msg_value = auth_value auth,
                            msg_validAfter = validAfter auth,
                            msg_validBefore = validBefore auth,
                            msg_nonce = nonce auth \<rparr> \<rparr>))))"

text \<open>
  Lines 62 to 70 (and again 73 to 81, word for word): \<open>r\<close>, \<open>s\<close> and \<open>v\<close> cut
  out of the signature string. \<open>NaN < 27\<close> is false, so a \<open>NaN\<close> stays.
\<close>

definition splitSignature :: "string \<Rightarrow> SignAuthorizationResult" where
  "splitSignature signature =
     (let r = ''0x'' @ slice signature 2 66;
          s = ''0x'' @ slice signature 66 130;
          v0 = parseInt16 (slice signature 130 132);
          v = (case v0 of
                 None \<Rightarrow> None
               | Some n \<Rightarrow> if n < 27 then Some (n + 27) else Some n)
      in \<lparr> sig_signature = signature, sig_v = v, sig_r = r, sig_s = s \<rparr>)"

definition signAuthorization ::
  "sign_deps \<Rightarrow> walletClient \<Rightarrow> ExactEvmPayloadAuthorization \<Rightarrow> PaymentRequirements
     \<Rightarrow> sign_error + SignAuthorizationResult"
where
  "signAuthorization deps wallet auth reqs =
     (case typedData deps auth reqs of
        Inl e \<Rightarrow> Inl e
      | Inr data \<Rightarrow>
          if isSignerWallet wallet then
            (case signTypedData wallet of
               None \<Rightarrow> Inl (SignTypedDataError ''signTypedData is not a function'')
             | Some sign \<Rightarrow>
                 (case sign data of
                    Inl reason \<Rightarrow> Inl (SignTypedDataError reason)
                  | Inr signature \<Rightarrow> Inr (splitSignature signature)))
          else if isAccount wallet \<and> signTypedData wallet \<noteq> None then
            (case signTypedData wallet of
               None \<Rightarrow> Inl (SignTypedDataError ''signTypedData is not a function'')
             | Some sign \<Rightarrow>
                 (case sign data of
                    Inl reason \<Rightarrow> Inl (SignTypedDataError reason)
                  | Inr signature \<Rightarrow> Inr (splitSignature signature)))
          else
            Inl (InvalidWalletClient
                   ''Invalid wallet client provided does not support signTypedData''))"


section \<open>createNonce\<close>

text \<open>
  The random source behind \<open>getRandomValues\<close> is a generator of bytes over a state:
  each draw returns a byte and the next state. \<open>getRandomValues\<close> overwrites every
  element of the array it is given and returns that array.
\<close>

type_synonym 's randomSource = "'s \<Rightarrow> byte \<times> 's"

fun getRandomValues :: "'s randomSource \<Rightarrow> byte list \<Rightarrow> 's \<Rightarrow> byte list \<times> 's" where
  "getRandomValues src [] st = ([], st)"
| "getRandomValues src (_ # rest) st =
     (let (b, st1) = src st;
          (bs, st2) = getRandomValues src rest st1
      in (b # bs, st2))"

text \<open>
  A crypto object may lack \<open>getRandomValues\<close>. The environment has
  \<open>globalThis.crypto\<close> or not, and \<open>require("crypto").webcrypto\<close> or not.
\<close>

datatype 's cryptoObj = CryptoObj (getRandomValues_of: "'s randomSource option")

record 's jsEnv =
  globalThis_crypto :: "'s cryptoObj option"
  node_webcrypto :: "'s cryptoObj option"

datatype nonce_error = CryptoUnavailable

definition Uint8Array :: "nat \<Rightarrow> byte list" where
  "Uint8Array n = replicate n 0"

definition cryptoObjOf :: "'s jsEnv \<Rightarrow> 's cryptoObj option" where
  "cryptoObjOf env =
     (case globalThis_crypto env of
        Some (CryptoObj (Some src)) \<Rightarrow> Some (CryptoObj (Some src))
      | _ \<Rightarrow> node_webcrypto env)"

definition createNonce :: "'s jsEnv \<Rightarrow> 's \<Rightarrow> nonce_error + (string \<times> 's)" where
  "createNonce env st =
     (case cryptoObjOf env of
        None \<Rightarrow> Inl CryptoUnavailable
      | Some (CryptoObj None) \<Rightarrow> Inl CryptoUnavailable
      | Some (CryptoObj (Some src)) \<Rightarrow>
          (let (bs, st1) = getRandomValues src (Uint8Array 32) st
           in Inr (toHex bs, st1)))"


section \<open>The facilitator: configuration and data\<close>

text \<open>
  \<open>process.env\<close>: each variable is set to a string or absent. \<open>a || b\<close> on a
  possibly undefined string takes \<open>b\<close> when \<open>a\<close> is undefined or empty.
\<close>

record process_env =
  env_EVM_PRIVATE_KEY :: "string option"
  env_EVM_RPC_URL :: "string option"
  env_SVM_PRIVATE_KEY :: "string option"
  env_SVM_RPC_URL :: "string option"
  env_CASHBACK_PERCENT :: "string option"
  env_EVM_CASHBACK_TOKEN :: "string option"

fun or_else :: "string option \<Rightarrow> string \<Rightarrow> string" where
  "or_else None d = d"
| "or_else (Some a) d = (if a = [] then d else a)"

definition EVM_PRIVATE_KEY :: "process_env \<Rightarrow> string" where
  "EVM_PRIVATE_KEY env = or_else (env_EVM_PRIVATE_KEY env) []"

definition EVM_RPC_URL :: "process_env \<Rightarrow> string" where
  "EVM_RPC_URL env = or_else (env_EVM_RPC_URL env) ''https://sepolia.base.org''"

definition SVM_PRIVATE_KEY :: "process_env \<Rightarrow> string" where
  "SVM_PRIVATE_KEY env = or_else (env_SVM_PRIVATE_KEY env) []"

definition SVM_RPC_URL :: "process_env \<Rightarrow> string" where
  "SVM_RPC_URL env = or_else (env_SVM_RPC_URL env) []"

text \<open>Lines 29 to 32: the process exits at start-up when neither key is set.\<close>

definition startup_ok :: "process_env \<Rightarrow> bool" where
  "startup_ok env = (\<not> (EVM_PRIVATE_KEY env = [] \<and> SVM_PRIVATE_KEY env = []))"

record X402Config =
  svmConfig_rpcUrl :: string

definition x402Config :: "process_env \<Rightarrow> X402Config option" where
  "x402Config env =
     (if SVM_RPC_URL env \<noteq> [] then Some \<lparr> svmConfig_rpcUrl = SVM_RPC_URL env \<rparr> else None)"

datatype ExactPayload =
    ExactEvmPayload string ExactEvmPayloadAuthorization
  | ExactSvmPayload string

record PaymentPayload =
  x402Version :: nat
  pp_scheme :: string
  pp_network :: string
  payload :: ExactPayload

record VerifyResponse =
  isValid :: bool
  invalidReason :: "string option"
  vr_payer :: "string option"

record SettleResponse =
  success :: bool
  errorReason :: "string option"
  sr_payer :: "string option"
  transaction :: string
  sr_network :: string

datatype Signer = EvmSigner string | SvmSigner string

fun isSvmSignerWallet :: "Signer \<Rightarrow> bool" where
  "isSvmSignerWallet (SvmSigner _) = True"
| "isSvmSignerWallet (EvmSigner _) = False"

fun address :: "Signer \<Rightarrow> string" where
  "address (SvmSigner a) = a"
| "address (EvmSigner a) = a"

datatype ConnectedClient = ConnectedClient string

text \<open>
  An ERC-20 contract bound to the facilitator's wallet: what \<open>decimals()\<close> answers,
  what \<open>transfer(to, value)\<close> answers, and for a sent transaction its hash and what
  \<open>wait()\<close> answers. \<open>Inl\<close> is a rejected promise, with \<open>String(error)\<close>.
\<close>

record TransactionResponse =
  hash :: string
  wait :: "string + unit"

record Contract =
  decimals :: "string + nat"
  transfer :: "string \<Rightarrow> int \<Rightarrow> string + TransactionResponse"

text \<open>
  A JavaScript number built by \<open>Number(str)\<close> is kept as the application itself:
  the handler only passes it on into the response.
\<close>

datatype js_number = Number string

text \<open>
  What the facilitator imports from \<open>x402/types\<close>, \<open>x402/facilitator\<close> and
  \<open>ethers\<close>. Every call sits inside a \<open>try\<close>; \<open>Inl\<close> is a throw or a rejected
  promise and carries \<open>String(error)\<close>. The type \<open>'j\<close> is a JSON value of the
  request body. \<open>connectContract url key tokenAddress\<close> stands for lines 71 to 73
  (provider, wallet, contract).
\<close>

record 'j facilitator_deps =
  PaymentRequirementsSchema_parse :: "'j \<Rightarrow> string + PaymentRequirements"
  PaymentPayloadSchema_parse :: "'j \<Rightarrow> string + PaymentPayload"
  SupportedEVMNetworks :: "string list"
  SupportedSVMNetworks :: "string list"
  createConnectedClient :: "string \<Rightarrow> string + ConnectedClient"
  createSigner :: "string \<Rightarrow> string \<Rightarrow> string + Signer"
  verify :: "ConnectedClient + Signer \<Rightarrow> PaymentPayload \<Rightarrow> PaymentRequirements
               \<Rightarrow> X402Config option \<Rightarrow> string + VerifyResponse"
  settle :: "Signer \<Rightarrow> PaymentPayload \<Rightarrow> PaymentRequirements
               \<Rightarrow> X402Config option \<Rightarrow> string + SettleResponse"
  connectContract :: "string \<Rightarrow> string \<Rightarrow> string option \<Rightarrow> string + Contract"
  parseUnits :: "string \<Rightarrow> nat \<Rightarrow> string + int"

record 'j request_body =
  paymentPayload :: 'j
  paymentRequirements :: 'j

datatype 'a response = Status200 'a | Status400 string

record Cashback =
  amount :: nat
  txHash :: "string option"
  percent :: js_number

record SettleBody =
  body_success :: bool
  settlement :: SettleResponse
  cashback :: Cashback

record KindExtra =
  feePayer :: "string option"

record SupportedPaymentKind =
  kind_x402Version :: nat
  kind_scheme :: string
  kind_network :: string
  kind_extra :: "KindExtra option"


section \<open>sendEvmCashback\<close>

text \<open>
  \<open>amount.toString()\<close> for a number that is a non-negative integer (the caller
  passes the literal 1): its decimal numeral.
\<close>

definition digitChar :: "nat \<Rightarrow> char" where
  "digitChar n = ''0123456789'' ! (n mod 10)"

fun number_toString :: "nat \<Rightarrow> string" where
  "number_toString n =
     (if n < 10 then [digitChar n] else number_toString (n div 10) @ [digitChar (n mod 10)])"

declare number_toString.simps [simp del]

text \<open>The calls made on the chain, in order, beside the result.\<close>

datatype chain_call =
    Call_decimals
  | Call_transfer string int
  | Call_wait string

definition sendEvmCashback ::
  "'j facilitator_deps \<Rightarrow> process_env \<Rightarrow> string \<Rightarrow> string option \<Rightarrow> nat
     \<Rightarrow> (string + string) \<times> chain_call list"
where
  "sendEvmCashback deps env to tokenAddress amt =
     (case connectContract deps (EVM_RPC_URL env) (EVM_PRIVATE_KEY env) tokenAddress of
        Inl e \<Rightarrow> (Inl e, [])
      | Inr token \<Rightarrow>
          (let dec = (case decimals token of Inl _ \<Rightarrow> 18 | Inr d \<Rightarrow> d)
           in case parseUnits deps (number_toString amt) dec of
                Inl e \<Rightarrow> (Inl e, [Call_decimals])
              | Inr decimalAmount \<Rightarrow>
                  (case transfer token to decimalAmount of
                     Inl e \<Rightarrow> (Inl e, [Call_decimals, Call_transfer to decimalAmount])
                   | Inr tx \<Rightarrow>
                       (case wait tx of
                          Inl e \<Rightarrow>
                            (Inl e, [Call_decimals, Call_transfer to decimalAmount,
                                     Call_wait (hash tx)])
                        | Inr _ \<Rightarrow>
                            (Inr (hash tx), [Call_decimals, Call_transfer to decimalAmount,
                                             Call_wait (hash tx)])))))"


section \<open>The routes\<close>

text \<open>POST /verify, lines 93 to 114.\<close>

definition verify_client ::
  "'j facilitator_deps \<Rightarrow> process_env \<Rightarrow> string \<Rightarrow> string + (ConnectedClient + Signer)"
where
  "verify_client deps env net =
     (if net \<in> set (SupportedEVMNetworks deps) then
        map_sum id Inl (createConnectedClient deps net)
      else if net \<in> set (SupportedSVMNetworks deps) then
        map_sum id Inr (createSigner deps net (SVM_PRIVATE_KEY env))
      else Inl ''Error: Invalid network'')"

definition verify_route ::
  "'j facilitator_deps \<Rightarrow> process_env \<Rightarrow> 'j request_body \<Rightarrow> VerifyResponse response"
where
  "verify_route deps env body =
     (case PaymentRequirementsSchema_parse deps (paymentRequirements body) of
        Inl _ \<Rightarrow> Status400 ''Invalid request''
      | Inr reqs \<Rightarrow>
     (case PaymentPayloadSchema_parse deps (paymentPayload body) of
        Inl _ \<Rightarrow> Status400 ''Invalid request''
      | Inr pp \<Rightarrow>
     (case verify_client deps env (network reqs) of
        Inl _ \<Rightarrow> Status400 ''Invalid request''
      | Inr client \<Rightarrow>
     (case verify deps client pp reqs (x402Config env) of
        Inl _ \<Rightarrow> Status400 ''Invalid request''
      | Inr valid \<Rightarrow> Status200 valid))))"

text \<open>POST /settle, lines 116 to 173.\<close>

definition settle_signer ::
  "'j facilitator_deps \<Rightarrow> process_env \<Rightarrow> string \<Rightarrow> string + Signer"
where
  "settle_signer deps env net =
     (if net \<in> set (SupportedEVMNetworks deps) then
        createSigner deps net (EVM_PRIVATE_KEY env)
      else if net \<in> set (SupportedSVMNetworks deps) then
        createSigner deps net (SVM_PRIVATE_KEY env)
      else Inl ''Error: Invalid network'')"

definition cashbackAmount :: nat where
  "cashbackAmount = 1"

definition cashbackPercent :: "process_env \<Rightarrow> js_number" where
  "cashbackPercent env = Number (or_else (env_CASHBACK_PERCENT env) ''2'')"

definition payer_of :: "PaymentPayload \<Rightarrow> string option" where
  "payer_of pp =
     (case payload pp of
        ExactEvmPayload _ auth \<Rightarrow> Some (auth_from auth)
      | ExactSvmPayload _ \<Rightarrow> None)"

text \<open>Step 3, lines 148 to 157: the transaction hash of the cashback, or \<open>null\<close>.\<close>

definition send_cashback ::
  "'j facilitator_deps \<Rightarrow> process_env \<Rightarrow> PaymentRequirements \<Rightarrow> string option
     \<Rightarrow> string + string option"
where
  "send_cashback deps env reqs payer =
     (case payer of
        None \<Rightarrow> Inr None
      | Some p \<Rightarrow>
          if p \<noteq> [] \<and> cashbackAmount > 0 then
            (if network reqs \<in> set (SupportedEVMNetworks deps) then
               map_sum id Some
                 (fst (sendEvmCashback deps env p (env_EVM_CASHBACK_TOKEN env) cashbackAmount))
             else Inr None)
          else Inr None)"

definition settle_route ::
  "'j facilitator_deps \<Rightarrow> process_env \<Rightarrow> 'j request_body \<Rightarrow> SettleBody response"
where
  "settle_route deps env body =
     (case PaymentRequirementsSchema_parse deps (paymentRequirements body) of
        Inl e \<Rightarrow> Status400 e
      | Inr reqs \<Rightarrow>
     (case PaymentPayloadSchema_parse deps (paymentPayload body) of
        Inl e \<Rightarrow> Status400 e
      | Inr pp \<Rightarrow>
     (case settle_signer deps env (network reqs) of
        Inl e \<Rightarrow> Status400 e
      | Inr signer \<Rightarrow>
     (case settle deps signer pp reqs (x402Config env) of
        Inl e \<Rightarrow> Status400 e
      | Inr st \<Rightarrow>
     (case send_cashback deps env reqs (payer_of pp) of
        Inl e \<Rightarrow> Status400 e
      | Inr cashbackTxHash \<Rightarrow>
          Status200 \<lparr> body_success = True,
                      settlement = st,
                      cashback = \<lparr> amount = cashbackAmount,
                                   txHash = cashbackTxHash,
                                   percent = cashbackPercent env \<rparr> \<rparr>)))))"

text \<open>
  GET /supported, lines 175 to 198. The handler has no \<open>try\<close>: when
  \<open>createSigner\<close> rejects, no response is sent (\<open>Inl\<close>).
\<close>

definition supported_route ::
  "'j facilitator_deps \<Rightarrow> process_env \<Rightarrow> string + SupportedPaymentKind list"
where
  "supported_route deps env =
     (let kinds0 = [];
          kinds1 = (if EVM_PRIVATE_KEY env \<noteq> [] then
                      kinds0 @ [\<lparr> kind_x402Version = 1, kind_scheme = ''exact'',
                                  kind_network = ''base-sepolia'', kind_extra = None \<rparr>]
                    else kinds0)
      in if SVM_PRIVATE_KEY env \<noteq> [] then
           (case createSigner deps ''solana-devnet'' (SVM_PRIVATE_KEY env) of
              Inl e \<Rightarrow> Inl e
            | Inr signer \<Rightarrow>
                (let fp = (if isSvmSignerWallet signer then Some (address signer) else None)
                 in Inr (kinds1 @ [\<lparr> kind_x402Version = 1, kind_scheme = ''exact'',
                                      kind_network = ''solana-devnet'',
                                      kind_extra = Some \<lparr> feePayer = fp \<rparr> \<rparr>])))
         else Inr kinds1)"


section \<open>RequirementsGenerator\<close>

text \<open>
  Modelled from the spec: the generator that expands a price specification into payment
  requirements lives in the middleware packages (\<open>x402-express\<close> and its siblings),
  which are not among the sources; only its callers are. What follows is section 4.1 of
  the specification: one requirement per price option, in input order; a currency string
  resolves to the reference asset of the network, its amount truncated to atomic units;
  an explicit option passes its amount through; a \<open>ConfigurationError\<close> for an empty
  specification, an explicit amount that is not a non-negative integer literal, or
  missing decimals where a currency string needs them.
\<close>

record AssetDescriptor =
  asset_address :: string
  asset_decimals :: "nat option"
  eip712_name :: string
  eip712_version :: string

datatype PriceOption =
    CurrencyPrice string
  | ExplicitPrice string AssetDescriptor

datatype ConfigurationError =
    EmptyPriceSpecification
  | InvalidAmount string
  | InvalidCurrency string
  | MissingDecimals

record GeneratorInput =
  gen_payTo :: string
  gen_network :: string
  gen_resource :: string
  gen_description :: string
  gen_mimeType :: string
  gen_maxTimeoutSeconds :: nat
  referenceAsset :: "string \<Rightarrow> AssetDescriptor"

definition isDigit :: "char \<Rightarrow> bool" where
  "isDigit c = (48 \<le> (of_char c :: nat) \<and> (of_char c :: nat) \<le> 57)"

definition digitsValue :: "string \<Rightarrow> nat" where
  "digitsValue ds = foldl (\<lambda>acc c. 10 * acc + ((of_char c :: nat) - 48)) 0 ds"

definition isNatLiteral :: "string \<Rightarrow> bool" where
  "isNatLiteral str = (str \<noteq> [] \<and> list_all isDigit str)"

text \<open>
  Modelled from the spec: a currency string is an optional dollar sign, an integer part
  and an optional fraction; its amount in atomic units of an asset with \<open>d\<close> decimals
  is the value times \<open>10 ^ d\<close>, truncated.
\<close>

definition currencyToAtomic :: "string \<Rightarrow> nat \<Rightarrow> nat option" where
  "currencyToAtomic str d =
     (let body = (case str of [] \<Rightarrow> [] | c # cs \<Rightarrow> if c = CHR ''$'' then cs else str);
          whole = takeWhile isDigit body;
          rest = dropWhile isDigit body
      in if whole = [] then None
         else case rest of
                [] \<Rightarrow> Some (digitsValue whole * 10 ^ d)
              | c # frac \<Rightarrow>
                  if c = CHR ''.'' \<and> isNatLiteral frac
                  then Some ((digitsValue (whole @ frac) * 10 ^ d) div 10 ^ length frac)
                  else None)"

text \<open>
  Modelled from the spec: the requirement built for an asset and an amount (absent from
  the sources); the fields are those of section 3, \<open>extra\<close> carrying the asset's
  name and version as in the documented 402 response.
\<close>

definition requirementOf :: "GeneratorInput \<Rightarrow> AssetDescriptor \<Rightarrow> string \<Rightarrow> PaymentRequirements" where
  "requirementOf inp a amt =
     \<lparr> scheme = ''exact'',
       network = gen_network inp,
       maxAmountRequired = amt,
       resource = gen_resource inp,
       description = gen_description inp,
       mimeType = gen_mimeType inp,
       payTo = gen_payTo inp,
       maxTimeoutSeconds = gen_maxTimeoutSeconds inp,
       asset = asset_address a,
       extra = Some [(''name'', eip712_name a), (''version'', eip712_version a)] \<rparr>"

text \<open>
  Modelled from the spec: the requirement of one price option (the generator's per-option
  step, absent from the sources), with the three failures section 4.1 names.
\<close>

fun requirementFor :: "GeneratorInput \<Rightarrow> PriceOption \<Rightarrow> ConfigurationError + PaymentRequirements" where
  "requirementFor inp (CurrencyPrice str) =
     (let a = referenceAsset inp (gen_network inp)
      in case asset_decimals a of
           None \<Rightarrow> Inl MissingDecimals
         | Some d \<Rightarrow>
             (case currencyToAtomic str d of
                None \<Rightarrow> Inl (InvalidCurrency str)
              | Some n \<Rightarrow> Inr (requirementOf inp a (number_toString n))))"
| "requirementFor inp (ExplicitPrice amt a) =
     (if isNatLiteral amt then Inr (requirementOf inp a amt) else Inl (InvalidAmount amt))"

text \<open>
  Modelled from the spec: the options are taken in input order and the first failure
  ends the generation (the generator's loop, absent from the sources).
\<close>

fun generateAll :: "GeneratorInput \<Rightarrow> PriceOption list \<Rightarrow> ConfigurationError + PaymentRequirements list" where
  "generateAll inp [] = Inr []"
| "generateAll inp (opt # opts) =
     (case requirementFor inp opt of
        Inl e \<Rightarrow> Inl e
      | Inr r \<Rightarrow>
          (case generateAll inp opts of
             Inl e \<Rightarrow> Inl e
           | Inr rs \<Rightarrow> Inr (r # rs)))"

text \<open>
  Modelled from the spec: the generator itself (absent from the sources); an empty
  price specification is a \<open>ConfigurationError\<close>.
\<close>

definition generateRequirements ::
  "GeneratorInput \<Rightarrow> PriceOption list \<Rightarrow> ConfigurationError + PaymentRequirements list"
where
  "generateRequirements inp spec =
     (if spec = [] then Inl EmptyPriceSpecification else generateAll inp spec)"

text \<open>A price option the generator accepts.\<close>

fun validOption :: "GeneratorInput \<Rightarrow> PriceOption \<Rightarrow> bool" where
  "validOption inp (CurrencyPrice str) =
     (case asset_decimals (referenceAsset inp (gen_network inp)) of
        None \<Rightarrow> False
      | Some d \<Rightarrow> currencyToAtomic str d \<noteq> None)"
| "validOption inp (ExplicitPrice amt a) = isNatLiteral amt"

text \<open>What every requirement of one specification has in common.\<close>

definition sharedPart :: "PaymentRequirements \<Rightarrow> PaymentRequirements" where
  "sharedPart r = r\<lparr> maxAmountRequired := [], asset := [], extra := None \<rparr>"


section \<open>Concrete inputs\<close>

text \<open>
  The inputs the theorems below are run on: the third price option of the route
  \<open>GET /multi-token\<close> of the multi-asset example server (Token C), a matching
  authorization, and stand-ins for the imported functions.
\<close>

definition example_sign_deps :: sign_deps where
  "example_sign_deps =
     \<lparr> getNetworkId = (\<lambda>n. if n = ''base-sepolia'' then Some 84532 else None),
       getAddress = (\<lambda>a. if length a = 42 \<and> take 2 a = ''0x'' then Some a else None),
       authorizationTypes =
         [(''from'', ''address''), (''to'', ''address''), (''value'', ''uint256''),
          (''validAfter'', ''uint256''), (''validBefore'', ''uint256''),
          (''nonce'', ''bytes32'')] \<rparr>"

definition example_requirements :: PaymentRequirements where
  "example_requirements =
     \<lparr> scheme = ''exact'',
       network = ''base-sepolia'',
       maxAmountRequired = ''500000000'',
       resource = ''http://localhost:3000/multi-token'',
       description = ''Access with multiple payment token options'',
       mimeType = [],
       payTo = ''0x209693Bc6afc0C5328bA36FaF03C514EF312287C'',
       maxTimeoutSeconds = 60,
       asset = ''0x3333333333333333333333333333333333333333'',
       extra = Some [(''name'', ''TokenC''), (''version'', ''2'')] \<rparr>"

definition example_authorization :: ExactEvmPayloadAuthorization where
  "example_authorization =
     \<lparr> auth_from = ''0x1111111111111111111111111111111111111111'',
       auth_to = ''0x209693Bc6afc0C5328bA36FaF03C514EF312287C'',
       auth_value = ''500000000'',
       validAfter = ''0'',
       validBefore = ''1893456000'',
       nonce = ''0x0707070707070707070707070707070707070707070707070707070707070707'' \<rparr>"

definition example_signature_bytes :: "byte list" where
  "example_signature_bytes = replicate 32 171 @ replicate 32 205 @ [1]"

definition example_payload :: PaymentPayload where
  "example_payload =
     \<lparr> x402Version = 1,
       pp_scheme = ''exact'',
       pp_network = ''base-sepolia'',
       payload = ExactEvmPayload (toHex example_signature_bytes) example_authorization \<rparr>"

datatype json =
    JsonRequirements PaymentRequirements
  | JsonPayload PaymentPayload
  | JsonOther string

definition example_body :: "json request_body" where
  "example_body =
     \<lparr> paymentPayload = JsonPayload example_payload,
       paymentRequirements = JsonRequirements example_requirements \<rparr>"

definition example_settlement :: SettleResponse where
  "example_settlement =
     \<lparr> success = True,
       errorReason = None,
       sr_payer = Some ''0x1111111111111111111111111111111111111111'',
       transaction = ''0xsettled'',
       sr_network = ''base-sepolia'' \<rparr>"

definition example_verdict :: VerifyResponse where
  "example_verdict =
     \<lparr> isValid = True,
       invalidReason = None,
       vr_payer = Some ''0x1111111111111111111111111111111111111111'' \<rparr>"

text \<open>
  A reward token whose \<open>decimals()\<close> and \<open>transfer\<close> answer as given; a sent
  transfer has the hash \<open>0xcashback\<close> and is mined.
\<close>

definition example_token :: "string + nat \<Rightarrow> bool \<Rightarrow> Contract" where
  "example_token dec transfer_ok =
     \<lparr> decimals = dec,
       transfer = (\<lambda>to v. if transfer_ok
                            then Inr \<lparr> hash = ''0xcashback'', wait = Inr () \<rparr>
                            else Inl ''Error: insufficient funds'') \<rparr>"

text \<open>
  Stand-ins for the facilitator's imports, over a settlement result \<open>st\<close>, what
  \<open>verify\<close> answers and the reward token.
\<close>

definition example_deps ::
  "SettleResponse \<Rightarrow> string + VerifyResponse \<Rightarrow> Contract \<Rightarrow> json facilitator_deps"
where
  "example_deps st verdict token =
     \<lparr> PaymentRequirementsSchema_parse =
         (\<lambda>j. case j of JsonRequirements r \<Rightarrow> Inr r | _ \<Rightarrow> Inl ''ZodError''),
       PaymentPayloadSchema_parse =
         (\<lambda>j. case j of JsonPayload p \<Rightarrow> Inr p | _ \<Rightarrow> Inl ''ZodError''),
       SupportedEVMNetworks = [''base-sepolia'', ''base''],
       SupportedSVMNetworks = [''solana-devnet'', ''solana''],
       createConnectedClient = (\<lambda>net. Inr (ConnectedClient net)),
       createSigner =
         (\<lambda>net key. if key = [] then Inl ''Error: invalid private key''
                     else if net \<in> set [''solana-devnet'', ''solana'']
                     then Inr (SvmSigner ''FeePayer1111'')
                     else Inr (EvmSigner ''0xfacilitator'')),
       verify = (\<lambda>client pp reqs cfg. verdict),
       settle = (\<lambda>signer pp reqs cfg. Inr st),
       connectContract = (\<lambda>url key addr. Inr token),
       parseUnits = (\<lambda>str d. if isNatLiteral str then Inr (int (digitsValue str * 10 ^ d))
                              else Inl ''TypeError: invalid FixedNumber string value'') \<rparr>"

definition example_env :: process_env where
  "example_env =
     \<lparr> env_EVM_PRIVATE_KEY = Some ''0xkey'',
       env_EVM_RPC_URL = None,
       env_SVM_PRIVATE_KEY = None,
       env_SVM_RPC_URL = None,
       env_CASHBACK_PERCENT = None,
       env_EVM_CASHBACK_TOKEN = Some ''0x4444444444444444444444444444444444444444'' \<rparr>"

definition example_generator_input :: GeneratorInput where
  "example_generator_input =
     \<lparr> gen_payTo = ''0x209693Bc6afc0C5328bA36FaF03C514EF312287C'',
       gen_network = ''base-sepolia'',
       gen_resource = ''http://localhost:3000/stablecoins'',
       gen_description = ''Access paid content with multiple stablecoin options'',
       gen_mimeType = [],
       gen_maxTimeoutSeconds = 60,
       referenceAsset =
         (\<lambda>net. \<lparr> asset_address = ''0x036CbD53842c5426634e7929541eC2318f3dCF7e'',
                   asset_decimals = Some 6,
                   eip712_name = ''USDC'',
                   eip712_version = ''2'' \<rparr>) \<rparr>"

definition example_price :: "PriceOption list" where
  "example_price =
     [CurrencyPrice ''$0.01'',
      ExplicitPrice ''10000''
        \<lparr> asset_address = ''0x1234567890abcdef1234567890abcdef12345678'',
          asset_decimals = Some 6,
          eip712_name = ''CustomStable'',
          eip712_version = ''1'' \<rparr>]"

text \<open>A byte source for \<open>getRandomValues\<close> to run on, and an environment holding it.\<close>

definition example_source :: "nat randomSource" where
  "example_source st = (of_nat (st div 65536), (st * 1103515245 + 12345) mod 2147483648)"

definition example_jsEnv :: "nat jsEnv" where
  "example_jsEnv =
     \<lparr> globalThis_crypto = Some (CryptoObj (Some example_source)),
       node_webcrypto = None \<rparr>"


section \<open>Properties of the signer and of the nonce\<close>

lemma hexDigitValue_hexDigit: "n < 16 \<Longrightarrow> hexDigitValue (hexDigit n) = Some n"
proof -
  assume "n < 16"
  then have "n \<in> {0,1,2,3,4,5,6,7,8,9,10,11,12,13,14,15}" by simp presburger
  then show ?thesis
    by (auto simp: hexDigit_def hexDigitValue_def)
qed

lemma hexDigit_plain:
  "n < 16 \<Longrightarrow> \<not> isStrWhiteSpaceChar (hexDigit n) \<and> hexDigit n \<noteq> CHR ''-'' \<and> hexDigit n \<noteq> CHR ''+''
     \<and> hexDigit n \<noteq> CHR ''x'' \<and> hexDigit n \<noteq> CHR ''X''"
proof -
  assume "n < 16"
  then have "n \<in> {0,1,2,3,4,5,6,7,8,9,10,11,12,13,14,15}" by simp presburger
  then show ?thesis
    by (auto simp: hexDigit_def isStrWhiteSpaceChar_def)
qed

lemma parseInt16_byteToHex: "parseInt16 (byteToHex b) = Some (uint b)"
proof -
  have hi: "unat b div 16 < 16"
    using unsigned_less [of b, where 'a = nat] by (simp add: less_mult_imp_div_less)
  have lo: "unat b mod 16 < 16" by simp
  show ?thesis
    using hexDigit_plain [OF hi] hexDigit_plain [OF lo]
      hexDigitValue_hexDigit [OF hi] hexDigitValue_hexDigit [OF lo]
    by (simp add: parseInt16_def byteToHex_def)
qed

lemma length_byteToHex: "length (byteToHex b) = 2"
  by (simp add: byteToHex_def)

lemma length_hex_body: "length (concat (map byteToHex bs)) = 2 * length bs"
  by (induction bs) (simp_all add: length_byteToHex)

lemma take_hex_body: "take (2 * n) (concat (map byteToHex bs)) = concat (map byteToHex (take n bs))"
proof (induction bs arbitrary: n)
  case Nil
  then show ?case by simp
next
  case (Cons b bs)
  show ?case
  proof (cases n)
    case 0
    then show ?thesis by simp
  next
    case (Suc m)
    then show ?thesis using Cons.IH [of m] by (simp add: length_byteToHex)
  qed
qed

lemma drop_hex_body: "drop (2 * n) (concat (map byteToHex bs)) = concat (map byteToHex (drop n bs))"
proof (induction bs arbitrary: n)
  case Nil
  then show ?case by simp
next
  case (Cons b bs)
  show ?case
  proof (cases n)
    case 0
    then show ?thesis by simp
  next
    case (Suc m)
    then show ?thesis using Cons.IH [of m] by (simp add: length_byteToHex)
  qed
qed

lemma slice_toHex:
  "slice (toHex bs) (2 + 2 * i) (2 + 2 * j) = concat (map byteToHex (take (j - i) (drop i bs)))"
proof -
  have "slice (toHex bs) (2 + 2 * i) (2 + 2 * j)
          = take (2 * (j - i)) (drop (2 * i) (concat (map byteToHex bs)))"
    by (simp add: slice_def toHex_def diff_mult_distrib2)
  then show ?thesis by (simp add: take_hex_body drop_hex_body)
qed

lemma splitSignature_toHex:
  assumes "length bs = 65"
  shows "splitSignature (toHex bs) =
           \<lparr> sig_signature = toHex bs,
             sig_v = Some (if uint (bs ! 64) < 27 then uint (bs ! 64) + 27 else uint (bs ! 64)),
             sig_r = toHex (take 32 bs),
             sig_s = toHex (take 32 (drop 32 bs)) \<rparr>"
proof -
  have r: "''0x'' @ slice (toHex bs) 2 66 = toHex (take 32 bs)"
    using slice_toHex [of bs 0 32] by (simp add: toHex_def [of "take 32 bs"])
  have s: "''0x'' @ slice (toHex bs) 66 130 = toHex (take 32 (drop 32 bs))"
    using slice_toHex [of bs 32 64] by (simp add: toHex_def [of "take 32 (drop 32 bs)"])
  have "take 1 (drop 64 bs) = [bs ! 64]"
    using assms by (simp add: take_Suc_conv_app_nth Cons_nth_drop_Suc [symmetric])
  then have v: "slice (toHex bs) 130 132 = byteToHex (bs ! 64)"
    using slice_toHex [of bs 64 65] by simp
  show ?thesis
    unfolding splitSignature_def r s v parseInt16_byteToHex by simp
qed


text \<open>
  Claim C3. When the typed data can be built and the signing identity (a signer wallet,
  or an account with \<open>signTypedData\<close>) answers with the hex encoding of 65 bytes,
  \<open>signAuthorization\<close> returns \<open>r\<close> as the hex of the first 32 bytes, \<open>s\<close> as the
  hex of the next 32 bytes, \<open>v\<close> as the last byte, with 27 added when it is below 27
  and unchanged otherwise (so \<open>v\<close> is at least 27), and the signature itself unchanged.
\<close>

theorem signAuthorization_splits_signature:
  assumes data: "typedData deps auth reqs = Inr data"
    and wallet: "signTypedData wallet = Some sign"
    and signed: "sign data = Inr (toHex bs)"
    and len: "length bs = 65"
  shows "\<exists>res. signAuthorization deps wallet auth reqs = Inr res
           \<and> sig_r res = toHex (take 32 bs)
           \<and> sig_s res = toHex (take 32 (drop 32 bs))
           \<and> sig_v res = Some (if uint (last bs) < 27 then uint (last bs) + 27 else uint (last bs))
           \<and> (\<exists>v. sig_v res = Some v \<and> 27 \<le> v)
           \<and> sig_signature res = toHex bs"
proof -
  have l: "last bs = bs ! 64"
    using len by (cases bs rule: rev_cases) (simp_all add: nth_append)
  have capable: "isSignerWallet wallet \<or> (isAccount wallet \<and> signTypedData wallet \<noteq> None)"
    using wallet by (cases wallet) simp_all
  have "signAuthorization deps wallet auth reqs = Inr (splitSignature (toHex bs))"
    using capable by (auto simp: signAuthorization_def data wallet signed)
  then show ?thesis
    by (simp add: splitSignature_toHex [OF len] l)
qed

theorem signAuthorization_splits_signature_witness:
  "\<exists>res. signAuthorization example_sign_deps
            (LocalAccount (Some (\<lambda>d. Inr (toHex example_signature_bytes))))
            example_authorization example_requirements = Inr res
         \<and> sig_r res = toHex (replicate 32 171)
         \<and> sig_s res = toHex (replicate 32 205)
         \<and> sig_v res = Some 28
         \<and> sig_signature res = toHex example_signature_bytes"
proof -
  have d: "\<exists>data. typedData example_sign_deps example_authorization example_requirements = Inr data"
    by (simp add: typedData_def example_sign_deps_def example_authorization_def
        example_requirements_def)
  then obtain data where data:
    "typedData example_sign_deps example_authorization example_requirements = Inr data" ..
  have len: "length example_signature_bytes = 65"
    by (simp add: example_signature_bytes_def)
  have t: "take 32 example_signature_bytes = replicate 32 171"
    by (simp add: example_signature_bytes_def)
  have dr: "take 32 (drop 32 example_signature_bytes) = replicate 32 205"
    by (simp add: example_signature_bytes_def)
  have la: "last example_signature_bytes = 1"
    by (simp add: example_signature_bytes_def)
  show ?thesis
    using signAuthorization_splits_signature
      [OF data, of "LocalAccount (Some (\<lambda>d. Inr (toHex example_signature_bytes)))"
         "\<lambda>d. Inr (toHex example_signature_bytes)" example_signature_bytes]
    by (auto simp: len t dr la)
qed

text \<open>
  Claim C7. With typed data that can be built, an identity that is neither a signer
  wallet nor an account exposing \<open>signTypedData\<close> makes \<open>signAuthorization\<close> end in
  the error of its last branch (the unsupported-signer error) and return no signature;
  an identity that is one of the two never ends in that error.
\<close>

theorem signAuthorization_unsupported_signer:
  assumes data: "typedData deps auth reqs = Inr data"
  shows "(\<not> isSignerWallet wallet \<and> \<not> (isAccount wallet \<and> signTypedData wallet \<noteq> None)
            \<longrightarrow> signAuthorization deps wallet auth reqs
                  = Inl (InvalidWalletClient
                           ''Invalid wallet client provided does not support signTypedData'')
                \<and> (\<forall>res. signAuthorization deps wallet auth reqs \<noteq> Inr res))
       \<and> (isSignerWallet wallet \<or> (isAccount wallet \<and> signTypedData wallet \<noteq> None)
            \<longrightarrow> (\<forall>msg. signAuthorization deps wallet auth reqs \<noteq> Inl (InvalidWalletClient msg)))"
  by (cases wallet) (auto simp: signAuthorization_def data split: sum.splits option.splits)

theorem signAuthorization_unsupported_signer_witness:
  "signAuthorization example_sign_deps OtherClient example_authorization example_requirements
     = Inl (InvalidWalletClient ''Invalid wallet client provided does not support signTypedData'')
   \<and> signAuthorization example_sign_deps (LocalAccount None) example_authorization
       example_requirements
     = Inl (InvalidWalletClient ''Invalid wallet client provided does not support signTypedData'')
   \<and> (\<forall>msg. signAuthorization example_sign_deps
               (SignerWallet (\<lambda>d. Inr (toHex example_signature_bytes)))
               example_authorization example_requirements \<noteq> Inl (InvalidWalletClient msg))"
proof -
  have "\<exists>data. typedData example_sign_deps example_authorization example_requirements = Inr data"
    by (simp add: typedData_def example_sign_deps_def example_authorization_def
        example_requirements_def)
  then obtain data where data:
    "typedData example_sign_deps example_authorization example_requirements = Inr data" ..
  show ?thesis
    using signAuthorization_unsupported_signer [OF data, of OtherClient]
      signAuthorization_unsupported_signer [OF data, of "LocalAccount None"]
      signAuthorization_unsupported_signer
        [OF data, of "SignerWallet (\<lambda>d. Inr (toHex example_signature_bytes))"]
    by simp
qed

text \<open>The typed data does not depend on \<open>extra\<close> at all.\<close>

lemma typedData_extra_irrelevant:
  "typedData deps auth (reqs\<lparr> extra := x \<rparr>) = typedData deps auth reqs"
  by (simp add: typedData_def split: option.splits)

text \<open>
  Claim C2, evaluated on the code. The requirements declare the domain name
  \<open>TokenC\<close> and version \<open>2\<close> in \<open>extra\<close>; the typed data that is built has the
  domain name \<open>META Forwarder\<close> and version \<open>1\<close>, and that is what a wallet which
  answers with the domain it was asked to sign reports back.
\<close>

theorem typedData_domain_ignores_extra:
  "extra example_requirements = Some [(''name'', ''TokenC''), (''version'', ''2'')]
   \<and> map_sum id (\<lambda>d. (domain_name (domain d), domain_version (domain d)))
       (typedData example_sign_deps example_authorization example_requirements)
     = Inr (''META Forwarder'', ''1'')
   \<and> map_sum id sig_signature
       (signAuthorization example_sign_deps
          (SignerWallet (\<lambda>d. Inr (domain_name (domain d) @ ''/'' @ domain_version (domain d))))
          example_authorization example_requirements)
     = Inr ''META Forwarder/1''"
  by (simp add: signAuthorization_def typedData_def splitSignature_def example_sign_deps_def
      example_authorization_def example_requirements_def)

lemma length_getRandomValues: "length (fst (getRandomValues src arr st)) = length arr"
  by (induction arr arbitrary: st) (simp_all add: split_beta Let_def)

lemma snd_getRandomValues:
  "snd (getRandomValues src arr st) = ((snd \<circ> src) ^^ length arr) st"
proof (induction arr arbitrary: st)
  case Nil
  then show ?case by simp
next
  case (Cons a rest)
  show ?case
    using Cons.IH [of "snd (src st)"]
    by (simp add: split_beta Let_def o_def funpow_swap1 [of "\<lambda>a. snd (src a)"])
qed

lemma nth_getRandomValues:
  "i < length arr \<Longrightarrow>
     fst (getRandomValues src arr st) ! i = fst (src (((snd \<circ> src) ^^ i) st))"
proof (induction arr arbitrary: st i)
  case Nil
  then show ?case by simp
next
  case (Cons a rest)
  show ?case
  proof (cases i)
    case 0
    then show ?thesis by (simp add: split_beta Let_def)
  next
    case (Suc j)
    with Cons.prems have "j < length rest" by simp
    from Cons.IH [OF this, of "snd (src st)"] Suc show ?thesis
      by (simp add: split_beta Let_def o_def funpow_swap1 [of "\<lambda>a. snd (src a)"])
  qed
qed

lemma byteToHex_inject: "byteToHex a = byteToHex b \<Longrightarrow> a = b"
proof -
  assume "byteToHex a = byteToHex b"
  then have "parseInt16 (byteToHex a) = parseInt16 (byteToHex b)" by simp
  then have "uint a = uint b" by (simp add: parseInt16_byteToHex)
  then show ?thesis by (simp add: word_uint_eq_iff)
qed

lemma hex_body_inject:
  "concat (map byteToHex xs) = concat (map byteToHex ys) \<Longrightarrow> xs = ys"
proof (induction xs arbitrary: ys)
  case Nil
  then show ?case by (cases ys) (simp_all add: byteToHex_def)
next
  case (Cons x xs)
  show ?case
  proof (cases ys)
    case Nil
    with Cons.prems show ?thesis by (simp add: byteToHex_def)
  next
    case (Cons y ys')
    with Cons.prems have "byteToHex x @ concat (map byteToHex xs)
        = byteToHex y @ concat (map byteToHex ys')" by simp
    then have "byteToHex x = byteToHex y" "concat (map byteToHex xs) = concat (map byteToHex ys')"
      by (simp_all add: length_byteToHex)
    then show ?thesis using Cons.IH [of ys'] Cons byteToHex_inject by simp
  qed
qed

lemma toHex_inject: "toHex xs = toHex ys \<Longrightarrow> xs = ys"
  by (simp add: toHex_def hex_body_inject)

text \<open>
  Claim C8. Where the environment has a crypto object with \<open>getRandomValues\<close>,
  every call of \<open>createNonce\<close> returns the hex encoding (66 characters) of exactly
  32 bytes; the i-th byte is the i-th successive draw of that crypto object's random
  source from the state the call starts in, the call leaves the source 32 draws further
  on (so the next call takes the next 32 draws), and the encoding determines the 32
  bytes. The nonce is made of draws of the random source and of nothing else.
\<close>

theorem createNonce_32_random_bytes:
  assumes "cryptoObjOf env = Some (CryptoObj (Some src))"
  shows "\<exists>bs. createNonce env st = Inr (toHex bs, ((snd \<circ> src) ^^ 32) st)
           \<and> length bs = 32
           \<and> (\<forall>i < 32. bs ! i = fst (src (((snd \<circ> src) ^^ i) st)))
           \<and> length (toHex bs) = 66
           \<and> (\<forall>bs'. toHex bs' = toHex bs \<longrightarrow> bs' = bs)"
proof -
  obtain bs st' where g: "getRandomValues src (Uint8Array 32) st = (bs, st')"
    by (cases "getRandomValues src (Uint8Array 32) st")
  have len: "length bs = 32"
    using length_getRandomValues [of src "Uint8Array 32" st] g by (simp add: Uint8Array_def)
  have st': "st' = ((snd \<circ> src) ^^ 32) st"
    using snd_getRandomValues [of src "Uint8Array 32" st] g by (simp add: Uint8Array_def)
  have draws: "bs ! i = fst (src (((snd \<circ> src) ^^ i) st))" if "i < 32" for i
    using nth_getRandomValues [of i "Uint8Array 32" src st] that g by (simp add: Uint8Array_def)
  have nonce: "createNonce env st = Inr (toHex bs, ((snd \<circ> src) ^^ 32) st)"
    using g assms st' by (simp add: createNonce_def)
  have hex: "length (toHex bs) = 66"
    using len by (simp add: toHex_def length_hex_body)
  show ?thesis
    using nonce len draws hex toHex_inject by blast
qed

lemma example_source_steps:
  "example_source 123456789 = (91, 231794730)"
  "example_source 231794730 = (208, 1126946331)"
  by (simp_all add: example_source_def)

theorem createNonce_32_random_bytes_witness:
  "\<exists>bs. createNonce example_jsEnv 123456789
          = Inr (toHex bs, ((snd \<circ> example_source) ^^ 32) 123456789)
     \<and> length bs = 32
     \<and> bs ! 0 = 91
     \<and> bs ! 1 = 208
     \<and> length (toHex bs) = 66"
proof -
  have c: "cryptoObjOf example_jsEnv = Some (CryptoObj (Some example_source))"
    by (simp add: cryptoObjOf_def example_jsEnv_def)
  from createNonce_32_random_bytes [OF c, of 123456789] obtain bs where
    n: "createNonce example_jsEnv 123456789
          = Inr (toHex bs, ((snd \<circ> example_source) ^^ 32) 123456789)"
    and len: "length bs = 32"
    and d: "\<forall>i < 32. bs ! i = fst (example_source (((snd \<circ> example_source) ^^ i) 123456789))"
    and hex: "length (toHex bs) = 66"
    by blast
  from d have "bs ! 0 = fst (example_source (((snd \<circ> example_source) ^^ 0) 123456789))"
    by (metis zero_less_numeral)
  then have b0: "bs ! 0 = 91" by (simp add: example_source_steps)
  from d have "bs ! 1 = fst (example_source (((snd \<circ> example_source) ^^ 1) 123456789))"
    by (metis one_less_numeral_iff semiring_norm(76))
  then have b1: "bs ! 1 = 208" by (simp add: example_source_steps)
  show ?thesis using n len b0 b1 hex by blast
qed


section \<open>Properties of the facilitator routes\<close>

lemma example_parse_requirements:
  "PaymentRequirementsSchema_parse (example_deps st verdict token) (paymentRequirements example_body)
     = Inr example_requirements"
  by (simp add: example_deps_def example_body_def)

lemma example_parse_payload:
  "PaymentPayloadSchema_parse (example_deps st verdict token) (paymentPayload example_body)
     = Inr example_payload"
  by (simp add: example_deps_def example_body_def)

lemma example_settle_signer:
  "settle_signer (example_deps st verdict token) example_env (network example_requirements)
     = Inr (EvmSigner ''0xfacilitator'')"
  by (simp add: settle_signer_def example_deps_def example_env_def example_requirements_def
      EVM_PRIVATE_KEY_def)

lemma example_settle:
  "settle (example_deps st verdict token) signer pp reqs cfg = Inr st"
  by (simp add: example_deps_def)

lemma example_payer:
  "payer_of example_payload = Some ''0x1111111111111111111111111111111111111111''"
  by (simp add: payer_of_def example_payload_def example_authorization_def)

lemma example_network_evm:
  "network example_requirements \<in> set (SupportedEVMNetworks (example_deps st verdict token))"
  by (simp add: example_deps_def example_requirements_def)

lemma number_toString_1: "number_toString cashbackAmount = ''1''"
  by (simp add: cashbackAmount_def number_toString.simps digitChar_def)

lemma example_parseUnits:
  "parseUnits (example_deps st verdict token) (number_toString cashbackAmount) d = Inr (10 ^ d)"
  by (simp add: example_deps_def number_toString_1 isNatLiteral_def
      isDigit_def digitsValue_def)

lemma example_cashback_fails:
  "fst (sendEvmCashback (example_deps st verdict (example_token dec False)) example_env p
          (env_EVM_CASHBACK_TOKEN example_env) cashbackAmount)
     = Inl ''Error: insufficient funds''"
  unfolding sendEvmCashback_def Let_def example_parseUnits
  by (simp add: example_deps_def example_token_def)

lemma example_cashback_sent:
  "fst (sendEvmCashback (example_deps st verdict (example_token dec True)) example_env p
          (env_EVM_CASHBACK_TOKEN example_env) cashbackAmount)
     = Inr ''0xcashback''"
  unfolding sendEvmCashback_def Let_def example_parseUnits
  by (simp add: example_deps_def example_token_def)

text \<open>
  Claim C1 as stated fails on the code. The settlement returns with \<open>success\<close> true,
  the rebate transfer throws, and POST /settle answers 400 with the transfer's error:
  \<open>sendEvmCashback\<close> is awaited inside the same \<open>try\<close> as the settlement.
\<close>

theorem settle_route_cashback_failure_counterexample:
  "settle (example_deps example_settlement (Inr example_verdict) (example_token (Inr 18) False))
       (EvmSigner ''0xfacilitator'') example_payload example_requirements (x402Config example_env)
     = Inr example_settlement
   \<and> success example_settlement
   \<and> fst (sendEvmCashback (example_deps example_settlement (Inr example_verdict) (example_token (Inr 18) False))
            example_env ''0x1111111111111111111111111111111111111111''
            (env_EVM_CASHBACK_TOKEN example_env) cashbackAmount)
       = Inl ''Error: insufficient funds''
   \<and> settle_route (example_deps example_settlement (Inr example_verdict) (example_token (Inr 18) False))
        example_env example_body
       = Status400 ''Error: insufficient funds''"
  by (simp add: settle_route_def send_cashback_def example_parse_requirements
      example_parse_payload example_settle_signer example_settle example_payer
      example_network_evm example_cashback_fails)
     (simp add: example_settlement_def cashbackAmount_def)

text \<open>
  Claim C1, amended. After a request that parsed, a signer that was created and a
  settlement that returned: when the cashback transfer to the payer throws, POST /settle
  answers 400 with \<open>String(error)\<close> of that failure; when no cashback is sent (the
  payload has no authorization, the payer is empty, or the network is not an EVM
  network) it answers 200 with \<open>success\<close> true, the settlement as returned and
  \<open>cashback.txHash\<close> null.
\<close>

theorem settle_route_cashback_outcome:
  assumes reqs: "PaymentRequirementsSchema_parse deps (paymentRequirements body) = Inr reqs"
    and pp: "PaymentPayloadSchema_parse deps (paymentPayload body) = Inr pp"
    and signer: "settle_signer deps env (network reqs) = Inr signer"
    and settled: "settle deps signer pp reqs (x402Config env) = Inr st"
  shows "(\<forall>p e. payer_of pp = Some p \<and> p \<noteq> []
              \<and> network reqs \<in> set (SupportedEVMNetworks deps)
              \<and> fst (sendEvmCashback deps env p (env_EVM_CASHBACK_TOKEN env) cashbackAmount) = Inl e
            \<longrightarrow> settle_route deps env body = Status400 e)
       \<and> (payer_of pp = None \<or> payer_of pp = Some []
            \<or> network reqs \<notin> set (SupportedEVMNetworks deps)
            \<longrightarrow> settle_route deps env body
                  = Status200 \<lparr> body_success = True, settlement = st,
                                cashback = \<lparr> amount = cashbackAmount, txHash = None,
                                             percent = cashbackPercent env \<rparr> \<rparr>)"
  by (auto simp: settle_route_def send_cashback_def reqs pp signer settled cashbackAmount_def
      split: option.splits)

theorem settle_route_cashback_outcome_witness:
  "settle_route (example_deps example_settlement (Inr example_verdict) (example_token (Inl ''Error: call revert'') False))
     example_env example_body
     = Status400 ''Error: insufficient funds''
   \<and> settle_route (example_deps example_settlement (Inr example_verdict) (example_token (Inr 6) True)) example_env
       (example_body\<lparr> paymentPayload :=
          JsonPayload (example_payload\<lparr> payload := ExactSvmPayload ''AQAB'' \<rparr>) \<rparr>)
     = Status200 \<lparr> body_success = True, settlement = example_settlement,
                   cashback = \<lparr> amount = 1, txHash = None, percent = Number ''2'' \<rparr> \<rparr>"
proof -
  let ?d1 = "example_deps example_settlement (Inr example_verdict) (example_token (Inl ''Error: call revert'') False)"
  let ?d2 = "example_deps example_settlement (Inr example_verdict) (example_token (Inr 6) True)"
  let ?b2 = "example_body\<lparr> paymentPayload :=
          JsonPayload (example_payload\<lparr> payload := ExactSvmPayload ''AQAB'' \<rparr>) \<rparr>"
  have r2: "PaymentRequirementsSchema_parse ?d2 (paymentRequirements ?b2) = Inr example_requirements"
    by (simp add: example_deps_def example_body_def)
  have p2: "PaymentPayloadSchema_parse ?d2 (paymentPayload ?b2)
              = Inr (example_payload\<lparr> payload := ExactSvmPayload ''AQAB'' \<rparr>)"
    by (simp add: example_deps_def example_body_def)
  have a: "settle_route ?d1 example_env example_body = Status400 ''Error: insufficient funds''"
    using settle_route_cashback_outcome
      [OF example_parse_requirements example_parse_payload example_settle_signer example_settle,
       of example_settlement "Inr example_verdict" "example_token (Inl ''Error: call revert'') False"]
      example_payer example_network_evm example_cashback_fails
    by simp
  have b: "settle_route ?d2 example_env ?b2
     = Status200 \<lparr> body_success = True, settlement = example_settlement,
                   cashback = \<lparr> amount = 1, txHash = None, percent = Number ''2'' \<rparr> \<rparr>"
    using settle_route_cashback_outcome [OF r2 p2 example_settle_signer example_settle]
    by (simp add: payer_of_def cashbackAmount_def cashbackPercent_def example_env_def)
  show ?thesis using a b by simp
qed

text \<open>
  Claim C5 as stated fails on the code. The body parses and the network is a supported
  EVM network, yet the response is the generic 400 and not a verdict: \<open>verify\<close> is
  awaited inside the \<open>try\<close>, and here it throws.
\<close>

theorem verify_route_throwing_verifier_counterexample:
  "PaymentRequirementsSchema_parse
       (example_deps example_settlement (Inl ''Error: RPC request failed'') (example_token (Inr 6) True))
       (paymentRequirements example_body) = Inr example_requirements
   \<and> PaymentPayloadSchema_parse
       (example_deps example_settlement (Inl ''Error: RPC request failed'') (example_token (Inr 6) True))
       (paymentPayload example_body) = Inr example_payload
   \<and> network example_requirements
       \<in> set (SupportedEVMNetworks
                (example_deps example_settlement (Inl ''Error: RPC request failed'')
                   (example_token (Inr 6) True)))
   \<and> verify_route
       (example_deps example_settlement (Inl ''Error: RPC request failed'') (example_token (Inr 6) True))
       example_env example_body
     = Status400 ''Invalid request''"
  by (simp add: verify_route_def verify_client_def example_parse_requirements
      example_parse_payload example_network_evm)
     (simp add: example_deps_def)

text \<open>
  Claim C5, amended. POST /verify answers 200 with a body \<open>v\<close> exactly when both
  schemas parse, the network is a supported EVM or SVM network, the client (or signer) is
  created and the Verifier returns \<open>v\<close>; every other request gets the 400 with the
  generic body, in particular one whose body fails to parse or whose network is
  neither kind.
\<close>

theorem verify_route_responses:
  "(verify_route deps env body = Status200 v
      \<longleftrightarrow> (\<exists>reqs pp client.
             PaymentRequirementsSchema_parse deps (paymentRequirements body) = Inr reqs
           \<and> PaymentPayloadSchema_parse deps (paymentPayload body) = Inr pp
           \<and> (network reqs \<in> set (SupportedEVMNetworks deps)
                \<or> network reqs \<in> set (SupportedSVMNetworks deps))
           \<and> verify_client deps env (network reqs) = Inr client
           \<and> verify deps client pp reqs (x402Config env) = Inr v))
   \<and> ((\<forall>w. verify_route deps env body \<noteq> Status200 w)
        \<longrightarrow> verify_route deps env body = Status400 ''Invalid request'')
   \<and> ((\<exists>e. PaymentRequirementsSchema_parse deps (paymentRequirements body) = Inl e)
        \<or> (\<exists>e. PaymentPayloadSchema_parse deps (paymentPayload body) = Inl e)
        \<or> (\<exists>reqs. PaymentRequirementsSchema_parse deps (paymentRequirements body) = Inr reqs
              \<and> network reqs \<notin> set (SupportedEVMNetworks deps)
              \<and> network reqs \<notin> set (SupportedSVMNetworks deps))
        \<longrightarrow> verify_route deps env body = Status400 ''Invalid request'')"
proof -
  have client: "verify_client deps env net = Inr c \<Longrightarrow>
      net \<in> set (SupportedEVMNetworks deps) \<or> net \<in> set (SupportedSVMNetworks deps)" for net c
    by (auto simp: verify_client_def split: if_splits)
  have nonet: "net \<notin> set (SupportedEVMNetworks deps) \<Longrightarrow> net \<notin> set (SupportedSVMNetworks deps)
      \<Longrightarrow> verify_client deps env net = Inl ''Error: Invalid network''" for net
    by (simp add: verify_client_def)
  have a: "verify_route deps env body = Status200 v
      \<longleftrightarrow> (\<exists>reqs pp client.
             PaymentRequirementsSchema_parse deps (paymentRequirements body) = Inr reqs
           \<and> PaymentPayloadSchema_parse deps (paymentPayload body) = Inr pp
           \<and> (network reqs \<in> set (SupportedEVMNetworks deps)
                \<or> network reqs \<in> set (SupportedSVMNetworks deps))
           \<and> verify_client deps env (network reqs) = Inr client
           \<and> verify deps client pp reqs (x402Config env) = Inr v)"
    using client by (auto simp: verify_route_def split: sum.splits)
  have b: "(\<forall>w. verify_route deps env body \<noteq> Status200 w)
        \<longrightarrow> verify_route deps env body = Status400 ''Invalid request''"
    by (auto simp: verify_route_def split: sum.splits)
  have c: "(\<exists>e. PaymentRequirementsSchema_parse deps (paymentRequirements body) = Inl e)
        \<or> (\<exists>e. PaymentPayloadSchema_parse deps (paymentPayload body) = Inl e)
        \<or> (\<exists>reqs. PaymentRequirementsSchema_parse deps (paymentRequirements body) = Inr reqs
              \<and> network reqs \<notin> set (SupportedEVMNetworks deps)
              \<and> network reqs \<notin> set (SupportedSVMNetworks deps))
        \<longrightarrow> verify_route deps env body = Status400 ''Invalid request''"
    using nonet by (auto simp: verify_route_def split: sum.splits)
  show ?thesis using a b c by blast
qed

theorem verify_route_responses_witness:
  "verify_route
     (example_deps example_settlement (Inr example_verdict) (example_token (Inr 6) True))
     example_env example_body = Status200 example_verdict
   \<and> verify_route
       (example_deps example_settlement (Inr example_verdict) (example_token (Inr 6) True))
       example_env (example_body\<lparr> paymentPayload := JsonOther ''{}'' \<rparr>)
     = Status400 ''Invalid request''"
proof -
  let ?d = "example_deps example_settlement (Inr example_verdict) (example_token (Inr 6) True)"
  have c: "verify_client ?d example_env (network example_requirements)
             = Inr (Inl (ConnectedClient ''base-sepolia''))"
    by (simp add: verify_client_def example_deps_def example_requirements_def)
  have v: "verify ?d client example_payload example_requirements (x402Config example_env)
             = Inr example_verdict" for client
    by (simp add: example_deps_def)
  have bad: "\<exists>e. PaymentPayloadSchema_parse ?d
               (paymentPayload (example_body\<lparr> paymentPayload := JsonOther ''{}'' \<rparr>)) = Inl e"
    by (simp add: example_deps_def)
  have a: "verify_route ?d example_env example_body = Status200 example_verdict"
    using verify_route_responses [of ?d example_env example_body example_verdict]
      example_parse_requirements example_parse_payload example_network_evm c v
    by blast
  have b: "verify_route ?d example_env (example_body\<lparr> paymentPayload := JsonOther ''{}'' \<rparr>)
             = Status400 ''Invalid request''"
    using verify_route_responses
      [of ?d example_env "example_body\<lparr> paymentPayload := JsonOther ''{}'' \<rparr>" example_verdict]
      bad
    by blast
  show ?thesis using a b by simp
qed

text \<open>
  Claim C6. When the handler answers (no SVM key, or \<open>createSigner\<close> returns the
  signer), the list holds the base-sepolia entry exactly when an EVM key is configured,
  holds a solana-devnet entry exactly when an SVM key is configured, that entry has an
  \<open>extra\<close> whose \<open>feePayer\<close> is the signer's address (undefined when the signer is
  not an SVM signer wallet), and every entry of the list is one of these two.
\<close>

theorem supported_route_kinds:
  assumes signer: "SVM_PRIVATE_KEY env = [] \<or>
                   createSigner deps ''solana-devnet'' (SVM_PRIVATE_KEY env) = Inr signer"
  shows "\<exists>kinds. supported_route deps env = Inr kinds
           \<and> (\<lparr> kind_x402Version = 1, kind_scheme = ''exact'',
                 kind_network = ''base-sepolia'', kind_extra = None \<rparr> \<in> set kinds
                \<longleftrightarrow> EVM_PRIVATE_KEY env \<noteq> [])
           \<and> (\<lparr> kind_x402Version = 1, kind_scheme = ''exact'',
                 kind_network = ''solana-devnet'',
                 kind_extra = Some \<lparr> feePayer = (if isSvmSignerWallet signer
                                                   then Some (address signer) else None) \<rparr> \<rparr>
                  \<in> set kinds
                \<longleftrightarrow> SVM_PRIVATE_KEY env \<noteq> [])
           \<and> ((\<exists>k \<in> set kinds. kind_network k = ''solana-devnet'')
                \<longleftrightarrow> SVM_PRIVATE_KEY env \<noteq> [])
           \<and> (\<forall>k \<in> set kinds.
                 k = \<lparr> kind_x402Version = 1, kind_scheme = ''exact'',
                       kind_network = ''base-sepolia'', kind_extra = None \<rparr>
               \<or> k = \<lparr> kind_x402Version = 1, kind_scheme = ''exact'',
                       kind_network = ''solana-devnet'',
                       kind_extra = Some \<lparr> feePayer = (if isSvmSignerWallet signer
                                                         then Some (address signer) else None) \<rparr> \<rparr>)"
proof (cases "SVM_PRIVATE_KEY env = []")
  case True
  then show ?thesis
    by (simp add: supported_route_def)
next
  case False
  with signer have "createSigner deps ''solana-devnet'' (SVM_PRIVATE_KEY env) = Inr signer"
    by simp
  with False show ?thesis
    by (simp add: supported_route_def)
qed

theorem supported_route_kinds_witness:
  "(\<exists>kinds. supported_route
       (example_deps example_settlement (Inr example_verdict) (example_token (Inr 6) True))
       (example_env\<lparr> env_SVM_PRIVATE_KEY := Some ''svmkey'' \<rparr>) = Inr kinds
     \<and> \<lparr> kind_x402Version = 1, kind_scheme = ''exact'',
         kind_network = ''base-sepolia'', kind_extra = None \<rparr> \<in> set kinds
     \<and> \<lparr> kind_x402Version = 1, kind_scheme = ''exact'',
         kind_network = ''solana-devnet'',
         kind_extra = Some \<lparr> feePayer = Some ''FeePayer1111'' \<rparr> \<rparr> \<in> set kinds)
   \<and> (\<exists>kinds. supported_route
       (example_deps example_settlement (Inr example_verdict) (example_token (Inr 6) True))
       example_env = Inr kinds
     \<and> \<lparr> kind_x402Version = 1, kind_scheme = ''exact'',
         kind_network = ''base-sepolia'', kind_extra = None \<rparr> \<in> set kinds
     \<and> \<not> (\<exists>k \<in> set kinds. kind_network k = ''solana-devnet''))"
proof -
  let ?d = "example_deps example_settlement (Inr example_verdict) (example_token (Inr 6) True)"
  let ?e = "example_env\<lparr> env_SVM_PRIVATE_KEY := Some ''svmkey'' \<rparr>"
  have k: "SVM_PRIVATE_KEY ?e = ''svmkey''" "EVM_PRIVATE_KEY ?e = ''0xkey''"
    "SVM_PRIVATE_KEY example_env = []" "EVM_PRIVATE_KEY example_env = ''0xkey''"
    by (simp_all add: SVM_PRIVATE_KEY_def EVM_PRIVATE_KEY_def example_env_def)
  have s: "createSigner ?d ''solana-devnet'' (SVM_PRIVATE_KEY ?e) = Inr (SvmSigner ''FeePayer1111'')"
    by (simp add: k example_deps_def)
  have a: "\<exists>kinds. supported_route ?d ?e = Inr kinds
     \<and> \<lparr> kind_x402Version = 1, kind_scheme = ''exact'',
         kind_network = ''base-sepolia'', kind_extra = None \<rparr> \<in> set kinds
     \<and> \<lparr> kind_x402Version = 1, kind_scheme = ''exact'',
         kind_network = ''solana-devnet'',
         kind_extra = Some \<lparr> feePayer = Some ''FeePayer1111'' \<rparr> \<rparr> \<in> set kinds"
    using supported_route_kinds [of ?e ?d "SvmSigner ''FeePayer1111''"] s
    by (auto simp: k)
  have b: "\<exists>kinds. supported_route ?d example_env = Inr kinds
     \<and> \<lparr> kind_x402Version = 1, kind_scheme = ''exact'',
         kind_network = ''base-sepolia'', kind_extra = None \<rparr> \<in> set kinds
     \<and> \<not> (\<exists>k \<in> set kinds. kind_network k = ''solana-devnet'')"
    using supported_route_kinds [of example_env ?d "SvmSigner ''FeePayer1111''"]
    by (auto simp: k)
  show ?thesis using a b by blast
qed

text \<open>
  Claim C9. Whenever POST /settle answers 200, the top-level \<open>success\<close> of the body
  is \<open>true\<close>, and the \<open>settlement\<close> beside it is what \<open>settle\<close> returned, whatever
  its own \<open>success\<close> flag says.
\<close>

theorem settle_route_success_literal:
  assumes "settle_route deps env body = Status200 b"
  shows "body_success b = True
       \<and> (\<exists>reqs pp signer.
             PaymentRequirementsSchema_parse deps (paymentRequirements body) = Inr reqs
           \<and> PaymentPayloadSchema_parse deps (paymentPayload body) = Inr pp
           \<and> settle deps signer pp reqs (x402Config env) = Inr (settlement b))"
  using assms by (auto simp: settle_route_def split: sum.splits)

theorem settle_route_success_literal_witness:
  "\<exists>b. settle_route
          (example_deps (example_settlement\<lparr> success := False,
                                             errorReason := Some ''insufficient_funds'' \<rparr>)
             (Inr example_verdict) (example_token (Inr 6) True))
          example_env example_body = Status200 b
      \<and> body_success b = True
      \<and> success (settlement b) = False"
proof -
  let ?st = "example_settlement\<lparr> success := False, errorReason := Some ''insufficient_funds'' \<rparr>"
  let ?d = "example_deps ?st (Inr example_verdict) (example_token (Inr 6) True)"
  have r: "settle_route ?d example_env example_body
             = Status200 \<lparr> body_success = True, settlement = ?st,
                  cashback = \<lparr> amount = 1, txHash = Some ''0xcashback'',
                               percent = Number ''2'' \<rparr> \<rparr>"
    by (simp add: settle_route_def send_cashback_def example_parse_requirements
        example_parse_payload example_settle_signer example_settle example_payer
        example_network_evm example_cashback_sent)
       (simp add: cashbackAmount_def cashbackPercent_def example_env_def)
  show ?thesis
    using settle_route_success_literal [OF r] r by simp
qed

text \<open>
  Claim C10. When the contract is connected and \<open>decimals()\<close> rejects,
  \<open>sendEvmCashback\<close> behaves exactly as if \<open>decimals()\<close> had answered 18: the amount
  is converted with 18 decimals and, once converted, \<open>transfer\<close> is called with it;
  the result is decided by the transfer and its receipt alone.
\<close>

theorem sendEvmCashback_decimals_default:
  assumes token: "connectContract deps (EVM_RPC_URL env) (EVM_PRIVATE_KEY env) tokenAddress
                    = Inr token"
    and failed: "decimals token = Inl e"
  shows "sendEvmCashback deps env to tokenAddress amt
           = sendEvmCashback
               (deps\<lparr> connectContract := (\<lambda>url key addr. Inr (token\<lparr> decimals := Inr 18 \<rparr>)) \<rparr>)
               env to tokenAddress amt
       \<and> (\<forall>decimalAmount. parseUnits deps (number_toString amt) 18 = Inr decimalAmount
            \<longrightarrow> take 2 (snd (sendEvmCashback deps env to tokenAddress amt))
                  = [Call_decimals, Call_transfer to decimalAmount]
                \<and> fst (sendEvmCashback deps env to tokenAddress amt)
                  = (case transfer token to decimalAmount of
                       Inl e' \<Rightarrow> Inl e'
                     | Inr tx \<Rightarrow> (case wait tx of Inl e' \<Rightarrow> Inl e' | Inr _ \<Rightarrow> Inr (hash tx))))"
  by (auto simp: sendEvmCashback_def token failed split: sum.splits)

theorem sendEvmCashback_decimals_default_witness:
  "take 2 (snd (sendEvmCashback
             (example_deps example_settlement (Inr example_verdict)
                (example_token (Inl ''Error: call revert'') True))
             example_env ''0x1111111111111111111111111111111111111111''
             (env_EVM_CASHBACK_TOKEN example_env) cashbackAmount))
     = [Call_decimals,
        Call_transfer ''0x1111111111111111111111111111111111111111'' 1000000000000000000]
   \<and> fst (sendEvmCashback
            (example_deps example_settlement (Inr example_verdict)
               (example_token (Inl ''Error: call revert'') True))
            example_env ''0x1111111111111111111111111111111111111111''
            (env_EVM_CASHBACK_TOKEN example_env) cashbackAmount)
     = Inr ''0xcashback''"
proof -
  let ?t = "example_token (Inl ''Error: call revert'') True"
  let ?d = "example_deps example_settlement (Inr example_verdict) ?t"
  have c: "connectContract ?d (EVM_RPC_URL example_env) (EVM_PRIVATE_KEY example_env)
             (env_EVM_CASHBACK_TOKEN example_env) = Inr ?t"
    by (simp add: example_deps_def)
  have f: "decimals ?t = Inl ''Error: call revert''"
    by (simp add: example_token_def)
  have p: "parseUnits ?d (number_toString cashbackAmount) 18 = Inr 1000000000000000000"
    using example_parseUnits [of example_settlement "Inr example_verdict" ?t 18] by simp
  have t: "transfer ?t to v = Inr \<lparr> hash = ''0xcashback'', wait = Inr () \<rparr>" for to v
    by (simp add: example_token_def)
  note sendEvmCashback_decimals_default
      [OF c f, of "''0x1111111111111111111111111111111111111111''" cashbackAmount,
       THEN conjunct2, rule_format, OF p]
  then show ?thesis
    by (simp add: t)
qed


section \<open>Properties of the requirements generator\<close>

lemma generateAll_Inr_iff:
  "generateAll inp spec = Inr reqs \<longleftrightarrow> map (requirementFor inp) spec = map Inr reqs"
proof (induction spec arbitrary: reqs)
  case Nil
  then show ?case by auto
next
  case (Cons opt opts)
  show ?case
  proof (cases "requirementFor inp opt")
    case (Inl e)
    then show ?thesis by (cases reqs) auto
  next
    case (Inr r)
    show ?thesis
    proof (cases "generateAll inp opts")
      case (Inl e)
      with Inr Cons.IH show ?thesis by (cases reqs) auto
    next
      case r2: (Inr rs)
      with Inr Cons.IH [of rs] Cons.IH show ?thesis by (cases reqs) auto
    qed
  qed
qed

lemma requirementFor_shape:
  "requirementFor inp opt = Inr r \<Longrightarrow> \<exists>a amt. r = requirementOf inp a amt"
  by (cases opt) (auto simp: Let_def split: option.splits if_splits)

lemma sharedPart_requirementOf:
  "sharedPart (requirementOf inp a amt) = sharedPart (requirementOf inp a' amt')"
  by (simp add: sharedPart_def requirementOf_def)

lemma requirementFor_valid:
  "validOption inp opt \<Longrightarrow> \<exists>r. requirementFor inp opt = Inr r"
  by (cases opt) (auto simp: Let_def split: option.splits)

lemma generateAll_valid:
  "\<forall>opt \<in> set spec. validOption inp opt \<Longrightarrow> \<exists>reqs. generateAll inp spec = Inr reqs"
proof (induction spec)
  case Nil
  then show ?case by simp
next
  case (Cons opt opts)
  then obtain r rs where "requirementFor inp opt = Inr r" "generateAll inp opts = Inr rs"
    using requirementFor_valid [of inp opt] by auto
  then show ?case by simp
qed

text \<open>
  Claim C4. Whatever the generator returns for a price specification has exactly one
  requirement per price option, the i-th requirement being the one of the i-th option;
  all have the scheme \<open>exact\<close> and the network, payee and resource of the input, and
  agree on every field except the amount, the asset and the asset's name and version in
  \<open>extra\<close>. For a non-empty specification of valid options the generator does return.
\<close>

theorem generateRequirements_one_per_option:
  "(\<forall>reqs. generateRequirements inp spec = Inr reqs \<longrightarrow>
       length reqs = length spec
     \<and> (\<forall>i < length spec. requirementFor inp (spec ! i) = Inr (reqs ! i))
     \<and> (\<forall>r \<in> set reqs. scheme r = ''exact'' \<and> network r = gen_network inp
                         \<and> payTo r = gen_payTo inp \<and> resource r = gen_resource inp)
     \<and> (\<forall>r \<in> set reqs. \<forall>r' \<in> set reqs. sharedPart r = sharedPart r'))
   \<and> (spec \<noteq> [] \<and> (\<forall>opt \<in> set spec. validOption inp opt)
        \<longrightarrow> (\<exists>reqs. generateRequirements inp spec = Inr reqs))"
proof -
  have first: "length reqs = length spec
     \<and> (\<forall>i < length spec. requirementFor inp (spec ! i) = Inr (reqs ! i))
     \<and> (\<forall>r \<in> set reqs. scheme r = ''exact'' \<and> network r = gen_network inp
                         \<and> payTo r = gen_payTo inp \<and> resource r = gen_resource inp)
     \<and> (\<forall>r \<in> set reqs. \<forall>r' \<in> set reqs. sharedPart r = sharedPart r')"
    if g: "generateRequirements inp spec = Inr reqs" for reqs
  proof -
    from g have "generateAll inp spec = Inr reqs"
      by (simp add: generateRequirements_def split: if_splits)
    then have m: "map (requirementFor inp) spec = map Inr reqs"
      by (simp add: generateAll_Inr_iff)
    then have len: "length reqs = length spec"
      using length_map [of "requirementFor inp" spec] length_map [of Inr reqs] by simp
    have nth: "requirementFor inp (spec ! i) = Inr (reqs ! i)" if "i < length spec" for i
      using that len nth_map [of i spec "requirementFor inp"] nth_map [of i reqs Inr] m by simp
    have shape: "\<exists>a amt. r = requirementOf inp a amt" if "r \<in> set reqs" for r
    proof -
      from that obtain i where "i < length reqs" "reqs ! i = r"
        by (auto simp: in_set_conv_nth)
      then show ?thesis using nth [of i] len requirementFor_shape by auto
    qed
    have fields: "scheme r = ''exact'' \<and> network r = gen_network inp
                    \<and> payTo r = gen_payTo inp \<and> resource r = gen_resource inp"
      if "r \<in> set reqs" for r
      using shape [OF that] by (auto simp: requirementOf_def)
    have same: "sharedPart r = sharedPart r'" if "r \<in> set reqs" "r' \<in> set reqs" for r r'
      using shape [OF that(1)] shape [OF that(2)] sharedPart_requirementOf by auto
    show ?thesis using len nth fields same by blast
  qed
  have second: "spec \<noteq> [] \<and> (\<forall>opt \<in> set spec. validOption inp opt)
        \<longrightarrow> (\<exists>reqs. generateRequirements inp spec = Inr reqs)"
    using generateAll_valid [of spec inp] by (auto simp: generateRequirements_def)
  show ?thesis using first second by blast
qed

lemma number_toString_10000: "number_toString 10000 = ''10000''"
  by (simp add: number_toString.simps digitChar_def)

lemma example_currency: "currencyToAtomic ''$0.01'' 6 = Some 10000"
  by (simp add: currencyToAtomic_def isDigit_def isNatLiteral_def digitsValue_def)

lemma example_generated:
  "generateRequirements example_generator_input example_price
     = Inr [requirementOf example_generator_input
              (referenceAsset example_generator_input ''base-sepolia'') ''10000'',
            requirementOf example_generator_input
              \<lparr> asset_address = ''0x1234567890abcdef1234567890abcdef12345678'',
                asset_decimals = Some 6,
                eip712_name = ''CustomStable'',
                eip712_version = ''1'' \<rparr> ''10000'']"
  by (simp add: generateRequirements_def example_price_def Let_def)
     (simp add: example_generator_input_def example_currency number_toString_10000
       isNatLiteral_def isDigit_def)

theorem generateRequirements_one_per_option_witness:
  "\<exists>reqs. generateRequirements example_generator_input example_price = Inr reqs
     \<and> length reqs = 2
     \<and> requirementFor example_generator_input (CurrencyPrice ''$0.01'') = Inr (reqs ! 0)
     \<and> requirementFor example_generator_input (example_price ! 1) = Inr (reqs ! 1)
     \<and> maxAmountRequired (reqs ! 0) = ''10000''
     \<and> asset (reqs ! 1) = ''0x1234567890abcdef1234567890abcdef12345678''
     \<and> sharedPart (reqs ! 0) = sharedPart (reqs ! 1)"
proof -
  have valid: "example_price \<noteq> [] \<and> (\<forall>opt \<in> set example_price. validOption example_generator_input opt)"
    by (simp add: example_price_def)
       (simp add: example_generator_input_def example_currency isNatLiteral_def isDigit_def)
  note t = generateRequirements_one_per_option [of example_generator_input example_price]
  from t valid obtain reqs where
    g: "generateRequirements example_generator_input example_price = Inr reqs"
    by blast
  from t g have len: "length reqs = length example_price"
    and nth: "\<forall>i < length example_price.
                requirementFor example_generator_input (example_price ! i) = Inr (reqs ! i)"
    and same: "\<forall>r \<in> set reqs. \<forall>r' \<in> set reqs. sharedPart r = sharedPart r'"
    by blast+
  have l2: "length example_price = 2" "example_price ! 0 = CurrencyPrice ''$0.01''"
    by (simp_all add: example_price_def)
  have n0: "requirementFor example_generator_input (CurrencyPrice ''$0.01'') = Inr (reqs ! 0)"
    using nth l2 by (metis zero_less_numeral)
  have n1: "requirementFor example_generator_input (example_price ! 1) = Inr (reqs ! 1)"
    using nth l2 by simp
  have s: "sharedPart (reqs ! 0) = sharedPart (reqs ! 1)"
    using same len l2 by simp
  have v: "maxAmountRequired (reqs ! 0) = ''10000''
           \<and> asset (reqs ! 1) = ''0x1234567890abcdef1234567890abcdef12345678''"
    using g by (auto simp: example_generated requirementOf_def)
  show ?thesis using g len l2 n0 n1 s v by simp
qed

end
